theory Spec2Isabelle
  imports Complex_Main
begin

section \<open>Values, errors and effects\<close>

text \<open>
  The stages are Python 2 modules. Exceptions are values of \<open>error\<close>; a function that
  may raise returns \<open>error + 'a\<close> with \<open>Inl\<close> the exception. A function that logs or calls
  a collaborator returns the list of those events in front of its result.

  Python floats are read as exact reals: rounding, overflow to infinity, underflow to
  zero and NaN are not part of the model. Every statement below about a computed rate is
  a statement about exact arithmetic.
\<close>

datatype error =
    KeyError | TypeError | ValueError | ZeroDivisionError | AttributeError
  | StopIteration | ConnectionError | IOError | FetchError | NameError

type_synonym ('t, 'a) eff = "'t list \<times> (error + 'a)"

definition bind_eff :: "('t, 'a) eff \<Rightarrow> ('a \<Rightarrow> ('t, 'b) eff) \<Rightarrow> ('t, 'b) eff" where
  "bind_eff m f =
     (case m of
        (t, Inl e) \<Rightarrow> (t, Inl e)
      | (t, Inr v) \<Rightarrow> (case f v of (t', r) \<Rightarrow> (t @ t', r)))"

definition bind_err :: "error + 'a \<Rightarrow> ('a \<Rightarrow> error + 'b) \<Rightarrow> error + 'b" where
  "bind_err m f = (case m of Inl e \<Rightarrow> Inl e | Inr v \<Rightarrow> f v)"

subsection \<open>The module logger\<close>

text \<open>
  \<^verbatim>\<open>logger = None\<close> at module level; only \<^verbatim>\<open>asyncPipeExchangerate\<close> assigns it
  (\<^verbatim>\<open>global logger; logger = utils.get_logger(context)\<close>). A method call on \<^verbatim>\<open>None\<close>
  raises AttributeError.
\<close>

datatype logger = LoggerNone | Logger

datatype level = DEBUG | WARNING | ERROR

type_synonym logrec = "level \<times> string"

definition log_call :: "logger \<Rightarrow> level \<Rightarrow> string \<Rightarrow> (logrec, unit) eff" where
  "log_call lg lvl msg =
     (case lg of LoggerNone \<Rightarrow> ([], Inl AttributeError) | Logger \<Rightarrow> ([(lvl, msg)], Inr ()))"

subsection \<open>Words: the per-item base currency\<close>

text \<open>
  The resolved word of a split pair and the configured currencies are \<^verbatim>\<open>None\<close>, text or
  an integer. \<open>truthy\<close> is Python's truth value, \<open>py_or\<close> is \<^verbatim>\<open>a or b\<close>, \<open>fmt_s\<close> is
  \<^verbatim>\<open>'%s' % w\<close>.
\<close>

datatype word = WNone | WStr string | WInt int

fun truthy :: "word \<Rightarrow> bool" where
  "truthy WNone = False"
| "truthy (WStr s) = (s \<noteq> [])"
| "truthy (WInt i) = (i \<noteq> 0)"

definition py_or :: "word \<Rightarrow> word \<Rightarrow> word" where
  "py_or a b = (if truthy a then a else b)"

fun str_nat :: "nat \<Rightarrow> string" where
  "str_nat n =
     (if n < 10 then [''0123456789'' ! n]
      else str_nat (n div 10) @ [''0123456789'' ! (n mod 10)])"

declare str_nat.simps [simp del]

definition str_int :: "int \<Rightarrow> string" where
  "str_int i = (if i < 0 then CHR ''-'' # str_nat (nat (- i)) else str_nat (nat i))"

fun fmt_s :: "word \<Rightarrow> string" where
  "fmt_s WNone = ''None''"
| "fmt_s (WStr s) = s"
| "fmt_s (WInt i) = str_int i"

subsection \<open>JSON values and Deferreds\<close>

text \<open>
  What \<^verbatim>\<open>json.loads\<close> returns. A \<open>JObj\<close> lists the items of a dict (one per key).
  \<open>pyobj\<close> adds the Deferred of the suspendable strategy, holding its eventual outcome.
\<close>

datatype json =
    JNull | JBool bool | JNum real | JStr string
  | JArr "json list" | JObj "(string \<times> json) list"

datatype pyobj = Value json | Deferred "error + json"

text \<open>\<^verbatim>\<open>x[key]\<close> with a text key: only a dict supports it.\<close>

fun getitem :: "json \<Rightarrow> string \<Rightarrow> error + json" where
  "getitem (JObj kvs) k = (case map_of kvs k of None \<Rightarrow> Inl KeyError | Some v \<Rightarrow> Inr v)"
| "getitem _ k = Inl TypeError"

text \<open>\<^verbatim>\<open>for r in x\<close>: a list gives its elements, a dict its keys, text its characters.\<close>

fun py_iter :: "json \<Rightarrow> error + json list" where
  "py_iter (JArr xs) = Inr xs"
| "py_iter (JObj kvs) = Inr (map (\<lambda>kv. JStr (fst kv)) kvs)"
| "py_iter (JStr s) = Inr (map (\<lambda>c. JStr [c]) s)"
| "py_iter _ = Inl TypeError"

text \<open>
  A dict key must be hashable; \<^verbatim>\<open>True\<close> and \<^verbatim>\<open>False\<close> are the keys \<^verbatim>\<open>1\<close> and
  \<^verbatim>\<open>0\<close>.
\<close>

fun hash_key :: "json \<Rightarrow> error + json" where
  "hash_key (JArr xs) = Inl TypeError"
| "hash_key (JObj kvs) = Inl TypeError"
| "hash_key (JBool b) = Inr (JNum (of_bool b))"
| "hash_key j = Inr j"

text \<open>An operand of \<^verbatim>\<open>/\<close> or of \<^verbatim>\<open>*\<close> with a float.\<close>

fun as_num :: "json \<Rightarrow> error + real" where
  "as_num (JNum r) = Inr r"
| "as_num (JBool b) = Inr (of_bool b)"
| "as_num _ = Inl TypeError"

text \<open>
  \<^verbatim>\<open>float(x)\<close>. On text Python parses a number or raises ValueError; the reading of
  text is the parameter \<open>ft\<close>.
\<close>

fun pyfloat :: "(string \<Rightarrow> real option) \<Rightarrow> json \<Rightarrow> error + real" where
  "pyfloat ft (JNum r) = Inr r"
| "pyfloat ft (JBool b) = Inr (of_bool b)"
| "pyfloat ft (JStr s) = (case ft s of None \<Rightarrow> Inl ValueError | Some r \<Rightarrow> Inr r)"
| "pyfloat ft _ = Inl TypeError"

text \<open>True division (\<^verbatim>\<open>from __future__ import division\<close>).\<close>

definition pydiv :: "real \<Rightarrow> real \<Rightarrow> error + real" where
  "pydiv a b = (if b = 0 then Inl ZeroDivisionError else Inr (a / b))"

section \<open>pipe2py.modules.pipeexchangerate\<close>

type_synonym rates = "json \<rightharpoonup> json"

record objconf =
  conf_quote :: word
  conf_default :: word
  conf_offline :: "bool option"

text \<open>
  \<^verbatim>\<open>
  def get_base(conf, word):
      base = word or conf.default
      try:
          offline = conf.offline
      except AttributeError:
          offline = False
      return (base, offline)
  \<close>
  \<open>conf_offline = None\<close> is a configuration without the attribute.
\<close>

definition get_base :: "objconf \<Rightarrow> word \<Rightarrow> word \<times> bool" where
  "get_base conf word =
     (let base = py_or word (conf_default conf);
          offline = (case conf_offline conf of Some b \<Rightarrow> b | None \<Rightarrow> False)
      in (base, offline))"

text \<open>
  \<^verbatim>\<open>
  def calc_rate(from_cur, to_cur, rates):
      if from_cur == to_cur:
          rate = 1
      elif to_cur == 'USD':
          try:
              rate = rates['USD/%s' % from_cur]
          except KeyError:
              logger.warning('rate USD/%s not found in rates' % from_cur)
              rate = 1
      else:
          usd_to_given = rates['USD/%s' % from_cur]
          usd_to_default = rates['USD/%s' % to_cur]
          rate = usd_to_given * (1 / usd_to_default)

      return 1 / float(rate)
  \<close>
  \<open>calc_rate_rate\<close> is the value of \<^verbatim>\<open>rate\<close> when the last line is reached. In the
  product the right operand \<^verbatim>\<open>1 / usd_to_default\<close> is computed before the
  multiplication looks at \<^verbatim>\<open>usd_to_given\<close>.
\<close>

definition rate_key :: "word \<Rightarrow> json" where
  "rate_key cur = JStr (''USD/'' @ fmt_s cur)"

definition calc_rate_rate :: "logger \<Rightarrow> word \<Rightarrow> word \<Rightarrow> rates \<Rightarrow> (logrec, json) eff" where
  "calc_rate_rate lg from_cur to_cur rates =
     (if from_cur = to_cur then ([], Inr (JNum 1))
      else if to_cur = WStr ''USD'' then
        (case rates (rate_key from_cur) of
           Some rate \<Rightarrow> ([], Inr rate)
         | None \<Rightarrow>
             bind_eff (log_call lg WARNING (''rate USD/'' @ fmt_s from_cur @ '' not found in rates''))
               (\<lambda>_. ([], Inr (JNum 1))))
      else
        (case rates (rate_key from_cur) of
           None \<Rightarrow> ([], Inl KeyError)
         | Some usd_to_given \<Rightarrow>
            (case rates (rate_key to_cur) of
               None \<Rightarrow> ([], Inl KeyError)
             | Some usd_to_default \<Rightarrow>
                 ([], bind_err (as_num usd_to_default) (\<lambda>d.
                      bind_err (pydiv 1 d) (\<lambda>q.
                      bind_err (as_num usd_to_given) (\<lambda>g. Inr (JNum (g * q)))))))))"

definition calc_rate ::
  "(string \<Rightarrow> real option) \<Rightarrow> logger \<Rightarrow> word \<Rightarrow> word \<Rightarrow> rates \<Rightarrow> (logrec, real) eff" where
  "calc_rate ft lg from_cur to_cur rates =
     bind_eff (calc_rate_rate lg from_cur to_cur rates)
       (\<lambda>rate. ([], bind_err (pyfloat ft rate) (\<lambda>r. pydiv 1 r)))"

text \<open>
  \<^verbatim>\<open>
  def parse_request(json):
      resources = json['list']['resources']
      fields = (r['resource']['fields'] for r in resources)
      return {i['name']: i['price'] for i in fields}
  \<close>
  The generator and the comprehension run record by record; the first record that
  raises ends the call. A Deferred does not support \<^verbatim>\<open>[...]\<close>: the subscript raises
  (TypeError; an old-style class instance raises AttributeError instead), and no table is
  built either way.
\<close>

definition record_entry :: "json \<Rightarrow> error + (json \<times> json)" where
  "record_entry r =
     bind_err (getitem r ''resource'') (\<lambda>res.
     bind_err (getitem res ''fields'') (\<lambda>i.
     bind_err (getitem i ''price'') (\<lambda>price.
     bind_err (getitem i ''name'') (\<lambda>name.
     bind_err (hash_key name) (\<lambda>k. Inr (k, price))))))"

fun build_rates :: "json list \<Rightarrow> rates \<Rightarrow> error + rates" where
  "build_rates [] d = Inr d"
| "build_rates (r # rs) d =
     (case record_entry r of Inl e \<Rightarrow> Inl e | Inr (k, v) \<Rightarrow> build_rates rs (d(k \<mapsto> v)))"

fun parse_request :: "pyobj \<Rightarrow> error + rates" where
  "parse_request (Deferred d) = Inl TypeError"
| "parse_request (Value j) =
     bind_err (getitem j ''list'') (\<lambda>l.
     bind_err (getitem l ''resources'') (\<lambda>resources.
     bind_err (py_iter resources) (\<lambda>rs. build_rates rs Map.empty)))"

text \<open>
  \<^verbatim>\<open>
  def parse_result(conf, word, _pass, rates=None):
      base = word or conf.default
      return base if _pass else calc_rate(base, conf.quote, rates)
  \<close>
\<close>

datatype out = OWord word | ORate real

definition parse_result ::
  "(string \<Rightarrow> real option) \<Rightarrow> logger \<Rightarrow> objconf \<Rightarrow> word \<Rightarrow> bool \<Rightarrow> rates \<Rightarrow> (logrec, out) eff" where
  "parse_result ft lg conf word pass rates =
     (let base = py_or word (conf_default conf)
      in if pass then ([], Inr (OWord base))
         else bind_eff (calc_rate ft lg base (conf_quote conf) rates) (\<lambda>r. ([], Inr (ORate r))))"

text \<open>
  The module's sample table
  \<^verbatim>\<open>FIELDS = [{'name': 'USD/USD', 'price': 1}, {'name': 'USD/EUR', 'price': 0.8234}, ...]\<close>,
  the payload of the rate service that carries a list of such fields
  (\<^verbatim>\<open>list.resources[].resource.fields\<close>), and the table of the first three.
\<close>

definition FIELDS :: "json list" where
  "FIELDS =
     [JObj [(''name'', JStr ''USD/USD''), (''price'', JNum 1)],
      JObj [(''name'', JStr ''USD/EUR''), (''price'', JNum 0.8234)],
      JObj [(''name'', JStr ''USD/GBP''), (''price'', JNum 0.6448)],
      JObj [(''name'', JStr ''USD/INR''), (''price'', JNum 63.6810)],
      JObj [(''name'', JStr ''USD/PLN''), (''price'', JNum 3.76)],
      JObj [(''name'', JStr ''USD/SGD''), (''price'', JNum 1.34)]]"

definition quote_payload :: "json list \<Rightarrow> json" where
  "quote_payload fs =
     JObj [(''list'', JObj [(''resources'',
       JArr (map (\<lambda>f. JObj [(''resource'', JObj [(''fields'', f)])]) fs))])]"

definition example_rates :: rates where
  "example_rates =
     [JStr ''USD/USD'' \<mapsto> JNum 1, JStr ''USD/EUR'' \<mapsto> JNum 0.8234,
      JStr ''USD/GBP'' \<mapsto> JNum 0.6448]"

subsection \<open>Fetching the rate data\<close>

text \<open>
  The outside world of one stage invocation: \<open>remote\<close> is the HTTP GET of the rate
  service (\<open>Inl\<close>: the call raises or times out; \<open>Inr body\<close>: a response, whose body
  reads as JSON or fails to), \<open>snapshot\<close> is reading and parsing the bundled file
  \<^verbatim>\<open>data/quote.json\<close>.

  The functions of this subsection are the bodies under \<^verbatim>\<open>@utils.memoize(utils.HALF_DAY)\<close>:
  what a call does when the decorator runs the function.
\<close>

record world =
  remote :: "error + (error + json)"
  snapshot :: "error + json"

definition EXCHANGE_API :: string where
  "EXCHANGE_API = ''http://finance.yahoo.com/webservice/v1/symbols/allcurrencies/quote''"

text \<open>
  \<^verbatim>\<open>
  def get_offline_rate_data(*args, **kwargs):
      if kwargs.get('err', True):
          logger.error('Error loading exchange rate data from %s' % EXCHANGE_API)
      else:
          logger.warning('Exchange rate data from %s was empty' % EXCHANGE_API)
      return loads(urlopen(LOCAL_RATES_URL).read())

  def get_rate_data():
      r = requests.get(EXCHANGE_API, params=PARAMS)
      return r.json()
  \<close>
\<close>

definition get_offline_rate_data :: "logger \<Rightarrow> world \<Rightarrow> bool \<Rightarrow> (logrec, json) eff" where
  "get_offline_rate_data lg w err =
     bind_eff
       (if err then log_call lg ERROR (''Error loading exchange rate data from '' @ EXCHANGE_API)
        else log_call lg WARNING (''Exchange rate data from '' @ EXCHANGE_API @ '' was empty''))
       (\<lambda>_. ([], snapshot w))"

definition get_rate_data :: "world \<Rightarrow> error + json" where
  "get_rate_data w = (case remote w of Inl e \<Rightarrow> Inl e | Inr body \<Rightarrow> body)"

text \<open>
  \<^verbatim>\<open>
  def asyncGetOfflineRateData(*args, **kwargs):
      logger.debug('loading offline data')
      if kwargs.get('err', True):
          logger.error('Error loading exchange rate data from %s' % EXCHANGE_API)
      resp = deferToThread(urlopen, LOCAL_RATES_URL)
      resp.addCallback(lambda r: loads(r.read()))
      return resp

  def asyncGetRateData():
      logger.debug('asyncGetRateData')
      resp = treq.get(EXCHANGE_API, params=PARAMS)
      resp.addCallbacks(treq.json_content, asyncGetOfflineRateData)
      return resp
  \<close>
  Both return a Deferred. With \<^verbatim>\<open>addCallbacks(callback, errback)\<close> the errback runs when
  the GET fails, with the failure as its only argument (so \<^verbatim>\<open>err\<close> is not given);
  a failure of the callback itself is not passed to it.
\<close>

definition asyncGetOfflineRateData :: "logger \<Rightarrow> world \<Rightarrow> bool \<Rightarrow> (logrec, pyobj) eff" where
  "asyncGetOfflineRateData lg w err =
     bind_eff (log_call lg DEBUG ''loading offline data'') (\<lambda>_.
     bind_eff
       (if err then log_call lg ERROR (''Error loading exchange rate data from '' @ EXCHANGE_API)
        else ([], Inr ()))
       (\<lambda>_. ([], Inr (Deferred (snapshot w)))))"

definition asyncGetRateData :: "logger \<Rightarrow> world \<Rightarrow> (logrec, pyobj) eff" where
  "asyncGetRateData lg w =
     bind_eff (log_call lg DEBUG ''asyncGetRateData'') (\<lambda>_.
       (case remote w of
          Inr body \<Rightarrow> ([], Inr (Deferred body))
        | Inl e \<Rightarrow>
           (case asyncGetOfflineRateData lg w True of
              (t, Inl e') \<Rightarrow> (t, Inr (Deferred (Inl e')))
            | (t, Inr d) \<Rightarrow> (t, Inr d))))"

text \<open>\<^verbatim>\<open>x = yield d\<close> under \<^verbatim>\<open>inlineCallbacks\<close>: the outcome of the Deferred.\<close>

fun yield :: "pyobj \<Rightarrow> error + pyobj" where
  "yield (Deferred r) = (case r of Inl e \<Rightarrow> Inl e | Inr v \<Rightarrow> Inr (Value v))"
| "yield (Value v) = Inr (Value v)"

subsection \<open>The two stage functions\<close>

text \<open>
  The stage configuration is a dict of dicts;
  \<^verbatim>\<open>offline = conf.get('offline', {}).get('value')\<close>.
\<close>

type_synonym pconf = "string \<rightharpoonup> (string \<rightharpoonup> word)"

definition conf_offline_value :: "pconf \<Rightarrow> word" where
  "conf_offline_value conf =
     (case conf ''offline'' of
        None \<Rightarrow> WNone
      | Some d \<Rightarrow> (case d ''value'' of None \<Rightarrow> WNone | Some v \<Rightarrow> v))"

text \<open>
  \<^verbatim>\<open>
  def pipe_exchangerate(context=None, item=None, conf=None, **kwargs):
      offline = conf.get('offline', {}).get('value')
      rdata = get_offline_rate_data(err=False) if offline else get_rate_data()
      rates = parse_request(rdata)
      split = get_split(item, conf, **cdicts(opts, kwargs))
      parsed = utils.dispatch(split, *get_dispatch_funcs())
      _OUTPUT = starmap(partial(parse_result, rates=rates), parsed)
      return _OUTPUT
  \<close>
  The module never binds the names \<^verbatim>\<open>get_split\<close> and \<^verbatim>\<open>asyncGetSplit\<close>: its import
  list is \<^verbatim>\<open>get_dispatch_funcs, get_async_dispatch_funcs, get_splits, asyncGetSplits\<close>,
  and nothing else assigns them. Looking the name up, which comes before the arguments of
  the call are evaluated, raises NameError. \<^verbatim>\<open>utils.dispatch\<close> with the dispatch
  functions, which gives the \<^verbatim>\<open>(conf, word, _pass)\<close> triples, is imported from outside
  this module and is the parameter \<open>dispatch\<close>. The output is lazy: it is the list of the
  per-item computations, each with its own outcome.
\<close>

definition get_split :: "'item \<Rightarrow> pconf \<Rightarrow> 'kw \<Rightarrow> error + 'sp" where
  "get_split item conf kwargs = Inl NameError"

definition asyncGetSplit :: "'item \<Rightarrow> pconf \<Rightarrow> 'kw \<Rightarrow> error + 'sp" where
  "asyncGetSplit item conf kwargs = Inl NameError"

definition pipe_exchangerate ::
  "(string \<Rightarrow> real option) \<Rightarrow> logger \<Rightarrow> world \<Rightarrow>
   ('sp \<Rightarrow> error + (objconf \<times> word \<times> bool) list) \<Rightarrow>
   'item \<Rightarrow> pconf \<Rightarrow> 'kw \<Rightarrow> (logrec, (logrec, out) eff list) eff" where
  "pipe_exchangerate ft lg w dispatch item conf kwargs =
     (let offline = conf_offline_value conf in
      bind_eff
        (if truthy offline then get_offline_rate_data lg w False else ([], get_rate_data w))
        (\<lambda>rdata.
      bind_eff ([], parse_request (Value rdata)) (\<lambda>rates.
      bind_eff ([], get_split item conf kwargs) (\<lambda>split.
      bind_eff ([], dispatch split) (\<lambda>parsed.
        ([], Inr (map (\<lambda>(c, wd, p). parse_result ft lg c wd p rates) parsed)))))))"

text \<open>
  \<^verbatim>\<open>
  @inlineCallbacks
  def asyncPipeExchangerate(context=None, item=None, conf=None, **kwargs):
      global logger
      logger = utils.get_logger(context)
      offline = conf.get('offline', {}).get('value')

      if offline:
          rdata = yield asyncGetOfflineRateData(err=False)
      else:
          rdata = asyncGetRateData()

      rates = parse_request(rdata)
      split = yield asyncGetSplit(item, conf, **cdicts(opts, kwargs))
      parsed = yield asyncDispatch(split, *get_async_dispatch_funcs())
      _OUTPUT = starmap(partial(parse_result, rates=rates), parsed)
      returnValue(iter(_OUTPUT))
  \<close>
  The first component of the result is the module logger after the call. The second is
  the outcome of the Deferred that the function returns: an exception raised in the body
  makes that Deferred fail. \<^verbatim>\<open>asyncDispatch\<close> with the dispatch functions is the
  parameter \<open>async_dispatch\<close>.
\<close>

definition asyncPipeExchangerate ::
  "(string \<Rightarrow> real option) \<Rightarrow> world \<Rightarrow>
   ('sp \<Rightarrow> error + (objconf \<times> word \<times> bool) list) \<Rightarrow>
   'item \<Rightarrow> pconf \<Rightarrow> 'kw \<Rightarrow> logger \<times> (logrec, (logrec, out) eff list) eff" where
  "asyncPipeExchangerate ft w async_dispatch item conf kwargs =
     (let lg = Logger; offline = conf_offline_value conf in
      (lg,
       bind_eff
         (if truthy offline
          then bind_eff (asyncGetOfflineRateData lg w False) (\<lambda>d. ([], yield d))
          else asyncGetRateData lg w)
         (\<lambda>rdata.
       bind_eff ([], parse_request rdata) (\<lambda>rates.
       bind_eff ([], asyncGetSplit item conf kwargs) (\<lambda>split.
       bind_eff ([], async_dispatch split) (\<lambda>parsed.
         ([], Inr (map (\<lambda>(c, wd, p). parse_result ft lg c wd p rates) parsed))))))))"

section \<open>The time-boxed cache\<close>

text \<open>
  Modelled from the spec: \<^verbatim>\<open>utils.memoize\<close> and \<^verbatim>\<open>utils.HALF_DAY\<close> (package
  \<^verbatim>\<open>pipe2py.lib.utils\<close>) are not among the sources. The specification's
  ExternalDataCache: \<^verbatim>\<open>get(key, ttl, fetchFn)\<close> with an injected clock;
  a cache entry is \<^verbatim>\<open>(value, fetchedAt)\<close>.
  \<^item> If a live entry exists (\<^verbatim>\<open>now - fetchedAt < ttl\<close>), return its value with no I/O.
  \<^item> Otherwise invoke fetchFn. On success, store \<^verbatim>\<open>(value, now)\<close> and return value.
  \<^item> On fetch failure: if a stale entry exists, return it; otherwise propagate FetchError.
  \<^item> The TTL for the rate data is 12 hours, here in seconds.

  \<open>fetch\<close> is the outcome fetchFn has if it is invoked now. The result is the cache
  after the call, the number of times fetchFn was invoked, and the outcome.
\<close>

record 'v entry =
  entry_value :: 'v
  fetchedAt :: int

text \<open>Modelled from the spec: \<^verbatim>\<open>utils.HALF_DAY\<close> is not among the sources; 12 hours, in seconds.\<close>

definition HALF_DAY :: int where
  "HALF_DAY = 12 * 60 * 60"

text \<open>Modelled from the spec: \<^verbatim>\<open>utils.memoize\<close> is not among the sources; an entry is live while
  \<^verbatim>\<open>now - fetchedAt < ttl\<close>.\<close>

definition live :: "int \<Rightarrow> int \<Rightarrow> 'v entry \<Rightarrow> bool" where
  "live now ttl e = (now - fetchedAt e < ttl)"

text \<open>Modelled from the spec: \<^verbatim>\<open>utils.memoize\<close> is not among the sources; this is
  \<^verbatim>\<open>get(key, ttl, fetchFn)\<close> of the ExternalDataCache as itemised above.\<close>

definition cache_get ::
  "('k \<rightharpoonup> 'v entry) \<Rightarrow> int \<Rightarrow> 'k \<Rightarrow> int \<Rightarrow> (error + 'v) \<Rightarrow>
   ('k \<rightharpoonup> 'v entry) \<times> nat \<times> (error + 'v)" where
  "cache_get cache now key ttl fetch =
     (case cache key of
        Some e \<Rightarrow>
          if live now ttl e then (cache, 0, Inr (entry_value e))
          else (case fetch of
                  Inr v \<Rightarrow> (cache(key \<mapsto> \<lparr>entry_value = v, fetchedAt = now\<rparr>), 1, Inr v)
                | Inl err \<Rightarrow> (cache, 1, Inr (entry_value e)))
      | None \<Rightarrow>
          (case fetch of
             Inr v \<Rightarrow> (cache(key \<mapsto> \<lparr>entry_value = v, fetchedAt = now\<rparr>), 1, Inr v)
           | Inl err \<Rightarrow> (cache, 1, Inl FetchError)))"

text \<open>Modelled from the spec: \<^verbatim>\<open>utils.memoize\<close> is not among the sources; this is
  \<^verbatim>\<open>@utils.memoize(utils.HALF_DAY) def get_rate_data()\<close>, the rate-data fetch of the
  blocking strategy under the cache, keyed by its name.\<close>

definition memo_get_rate_data ::
  "(string \<rightharpoonup> json entry) \<Rightarrow> int \<Rightarrow> world \<Rightarrow>
   (string \<rightharpoonup> json entry) \<times> nat \<times> (error + json)" where
  "memo_get_rate_data cache now w =
     cache_get cache now ''get_rate_data'' HALF_DAY (get_rate_data w)"

section \<open>riko.modules.fetchsitefeed\<close>

text \<open>
  The collaborators (\<^verbatim>\<open>riko.lib.utils\<close>, \<^verbatim>\<open>riko.lib.autorss\<close>, \<^verbatim>\<open>riko.bado.io\<close>) are
  parameters; every call to one of them is recorded, in order, in front of the result.
\<close>

record ('p, 's) collab =
  get_abspath :: "string \<Rightarrow> error + string"
  get_rss :: "string \<Rightarrow> error + (string \<rightharpoonup> string) list"
  asyncGetRSS :: "string \<Rightarrow> error + (string \<rightharpoonup> string) list"
  async_url_read :: "string \<Rightarrow> error + string"
  parse_rss :: "string \<Rightarrow> error + 'p"
  gen_entries :: "'p \<Rightarrow> error + 's"

datatype call =
    GetAbspath string | GetRss string | AsyncGetRss string
  | AsyncUrlRead string | ParseRss string | GenEntries

record siteconf =
  url :: string

text \<open>\<^verbatim>\<open>next(rss)['link']\<close>\<close>

fun next_link :: "(string \<rightharpoonup> string) list \<Rightarrow> error + string" where
  "next_link [] = Inl StopIteration"
| "next_link (e # es) = (case e ''link'' of None \<Rightarrow> Inl KeyError | Some l \<Rightarrow> Inr l)"

text \<open>
  \<^verbatim>\<open>
  def parser(_, objconf, skip, **kwargs):
      if skip:
          stream = kwargs['stream']
      else:
          url = utils.get_abspath(objconf.url)
          rss = autorss.get_rss(url)
          link = utils.get_abspath(next(rss)['link'])
          parsed = utils.parse_rss(link)
          stream = utils.gen_entries(parsed)

      return stream, skip
  \<close>
\<close>

definition parser ::
  "('p, 's) collab \<Rightarrow> siteconf \<Rightarrow> bool \<Rightarrow> (string \<rightharpoonup> 's) \<Rightarrow> (call, 's \<times> bool) eff" where
  "parser ext objconf skip kwargs =
     bind_eff
       (if skip then
          ([], case kwargs ''stream'' of None \<Rightarrow> Inl KeyError | Some s \<Rightarrow> Inr s)
        else
          bind_eff ([GetAbspath (url objconf)], get_abspath ext (url objconf)) (\<lambda>u.
          bind_eff ([GetRss u], get_rss ext u) (\<lambda>rss.
          bind_eff ([], next_link rss) (\<lambda>l.
          bind_eff ([GetAbspath l], get_abspath ext l) (\<lambda>link.
          bind_eff ([ParseRss link], parse_rss ext link) (\<lambda>parsed.
            ([GenEntries], gen_entries ext parsed)))))))
       (\<lambda>stream. ([], Inr (stream, skip)))"

text \<open>
  \<^verbatim>\<open>
  @coroutine
  def async_parser(_, objconf, skip, **kwargs):
      if skip:
          stream = kwargs['stream']
      else:
          url = utils.get_abspath(objconf.url)
          rss = yield autorss.asyncGetRSS(url)
          link = utils.get_abspath(next(rss)['link'])
          content = yield io.async_url_read(link)
          parsed = utils.parse_rss(content)
          stream = utils.gen_entries(parsed)

      result = (stream, skip)
      return_value(result)
  \<close>
  The result is the outcome of the Deferred that the coroutine returns.
\<close>

definition async_parser ::
  "('p, 's) collab \<Rightarrow> siteconf \<Rightarrow> bool \<Rightarrow> (string \<rightharpoonup> 's) \<Rightarrow> (call, 's \<times> bool) eff" where
  "async_parser ext objconf skip kwargs =
     bind_eff
       (if skip then
          ([], case kwargs ''stream'' of None \<Rightarrow> Inl KeyError | Some s \<Rightarrow> Inr s)
        else
          bind_eff ([GetAbspath (url objconf)], get_abspath ext (url objconf)) (\<lambda>u.
          bind_eff ([AsyncGetRss u], asyncGetRSS ext u) (\<lambda>rss.
          bind_eff ([], next_link rss) (\<lambda>l.
          bind_eff ([GetAbspath l], get_abspath ext l) (\<lambda>link.
          bind_eff ([AsyncUrlRead link], async_url_read ext link) (\<lambda>content.
          bind_eff ([ParseRss content], parse_rss ext content) (\<lambda>parsed.
            ([GenEntries], gen_entries ext parsed))))))))
       (\<lambda>stream. ([], Inr (stream, skip)))"

section \<open>Auxiliary facts\<close>

lemmas calc_defs =
  calc_rate_def calc_rate_rate_def bind_eff_def bind_err_def pydiv_def log_call_def

lemma as_num_Inl: "as_num v = Inl e \<Longrightarrow> e = TypeError"
  by (cases v) auto

lemma as_num_pyfloat: "as_num v = Inr r \<Longrightarrow> pyfloat ft v = Inr r"
  by (cases v) auto

lemma pyfloat_Inl: "pyfloat ft v = Inl e \<Longrightarrow> e = TypeError \<or> e = ValueError"
  by (cases v) (auto split: option.splits)

lemma falsy_iff: "\<not> truthy w \<longleftrightarrow> w = WNone \<or> w = WStr [] \<or> w = WInt 0"
  by (cases w) auto

text \<open>A lookup error leaves \<open>calc_rate\<close> in the cross-rate branch only.\<close>

lemma calc_rate_KeyError_iff:
  "snd (calc_rate ft lg from_cur to_cur rates) = Inl KeyError \<longleftrightarrow>
     from_cur \<noteq> to_cur \<and> to_cur \<noteq> WStr ''USD'' \<and>
     (rates (rate_key from_cur) = None \<or> rates (rate_key to_cur) = None)"
  apply (cases "rates (rate_key from_cur)"; cases "rates (rate_key to_cur)"; cases lg)
         apply (auto simp: calc_defs split: sum.splits option.splits
      dest: as_num_Inl pyfloat_Inl)
  done

text \<open>With a logger in place, a missing key of the to-USD branch is logged and read as 1.\<close>

lemma calc_rate_to_usd_missing_logged:
  assumes "from_cur \<noteq> WStr ''USD''" and "rates (rate_key from_cur) = None"
  shows "calc_rate ft Logger from_cur (WStr ''USD'') rates =
           ([(WARNING, ''rate USD/'' @ fmt_s from_cur @ '' not found in rates'')], Inr 1)"
  using assms by (simp add: calc_defs)

lemma calc_rate_to_usd_missing_no_logger:
  assumes "from_cur \<noteq> WStr ''USD''" and "rates (rate_key from_cur) = None"
  shows "calc_rate ft LoggerNone from_cur (WStr ''USD'') rates = ([], Inl AttributeError)"
  using assms by (simp add: calc_defs)

text \<open>What a well-formed record is: the four lookups and the hash of the name succeed.\<close>

lemma record_entry_Inr_iff:
  "record_entry r = Inr (k, v) \<longleftrightarrow>
     (\<exists>ro res fs name. r = JObj ro \<and> map_of ro ''resource'' = Some (JObj res) \<and>
        map_of res ''fields'' = Some (JObj fs) \<and> map_of fs ''price'' = Some v \<and>
        map_of fs ''name'' = Some name \<and> hash_key name = Inr k)"
    (is "?L \<longleftrightarrow> ?R")
proof
  assume a: ?L
  then obtain ro where r: "r = JObj ro"
    by (cases r) (auto simp: record_entry_def bind_err_def)
  from a r obtain x where x: "map_of ro ''resource'' = Some x"
    by (auto simp: record_entry_def bind_err_def split: option.splits)
  from a r x obtain res where res: "x = JObj res"
    by (cases x) (auto simp: record_entry_def bind_err_def)
  from a r x res obtain y where y: "map_of res ''fields'' = Some y"
    by (auto simp: record_entry_def bind_err_def split: option.splits)
  from a r x res y obtain fs where fs: "y = JObj fs"
    by (cases y) (auto simp: record_entry_def bind_err_def)
  from a r x res y fs show ?R
    by (auto simp: record_entry_def bind_err_def split: option.splits sum.splits)
next
  assume ?R
  then show ?L
    by (auto simp: record_entry_def bind_err_def)
qed

lemma build_rates_ok:
  "map record_entry rs = map Inr kvs \<Longrightarrow> build_rates rs d = Inr (d ++ map_of (rev kvs))"
proof (induction rs arbitrary: kvs d)
  case Nil
  then show ?case by simp
next
  case (Cons r rs)
  then obtain k v kvs' where kv: "kvs = (k, v) # kvs'" "record_entry r = Inr (k, v)"
    "map record_entry rs = map Inr kvs'"
    by (cases kvs) auto
  have eq: "d(k \<mapsto> v) ++ map_of (rev kvs') = d ++ map_of (rev kvs)"
    unfolding kv(1) by (rule ext) (simp add: map_add_def split: option.splits)
  have "build_rates (r # rs) d = build_rates rs (d(k \<mapsto> v))"
    using kv(2) by simp
  also have "\<dots> = Inr (d(k \<mapsto> v) ++ map_of (rev kvs'))"
    by (rule Cons.IH[OF kv(3)])
  finally show ?case
    by (simp only: eq)
qed

lemma build_rates_fail:
  "map record_entry pre = map Inr kvs \<Longrightarrow> record_entry r = Inl e \<Longrightarrow>
   build_rates (pre @ r # post) d = Inl e"
proof (induction pre arbitrary: kvs d)
  case Nil
  then show ?case by simp
next
  case (Cons p pre)
  then obtain k v kvs' where kv: "kvs = (k, v) # kvs'" "record_entry p = Inr (k, v)"
    "map record_entry pre = map Inr kvs'"
    by (cases kvs) auto
  from Cons.IH[OF kv(3) Cons.prems(2)] kv show ?case by simp
qed

lemma build_rates_some_fail:
  "r \<in> set rs \<Longrightarrow> record_entry r = Inl e \<Longrightarrow> \<exists>e'. build_rates rs d = Inl e'"
proof (induction rs arbitrary: d)
  case Nil
  then show ?case by simp
next
  case (Cons a rs)
  show ?case
  proof (cases "record_entry a")
    case (Inl e')
    then show ?thesis by simp
  next
    case (Inr kv)
    with Cons.prems have "r \<in> set rs" by auto
    from Cons.IH[OF this Cons.prems(2)] Inr show ?thesis
      by (cases kv) simp
  qed
qed

lemma quote_payload_resources:
  "getitem (quote_payload fs) ''list'' =
     Inr (JObj [(''resources'',
       JArr (map (\<lambda>f. JObj [(''resource'', JObj [(''fields'', f)])]) fs))])"
  by (simp add: quote_payload_def)

text \<open>
  With \<^verbatim>\<open>offline\<close> unset or falsy the suspendable stage fails for every state of
  the world: \<^verbatim>\<open>rdata = asyncGetRateData()\<close> is the Deferred, not its outcome.
\<close>

lemma async_online_fails:
  assumes "\<not> truthy (conf_offline_value conf)"
  shows "snd (snd (asyncPipeExchangerate ft w asd item conf kwargs)) = Inl TypeError"
  using assms
  by (auto simp: asyncPipeExchangerate_def asyncGetRateData_def asyncGetOfflineRateData_def
      bind_eff_def log_call_def Let_def split: sum.splits prod.splits)

text \<open>
  Neither stage function ever returns an output sequence: whatever is fetched, the call
  of the unbound split function ends it, unless an earlier step has already failed.
\<close>

lemma pipe_exchangerate_never_returns:
  "\<exists>e. snd (pipe_exchangerate ft lg w dispatch item conf kwargs) = Inl e"
  by (cases lg; cases "snapshot w"; cases "get_rate_data w")
    (auto simp: pipe_exchangerate_def get_offline_rate_data_def get_split_def bind_eff_def
      log_call_def Let_def split: sum.splits prod.splits)

lemma asyncPipeExchangerate_never_returns:
  "\<exists>e. snd (snd (asyncPipeExchangerate ft w async_dispatch item conf kwargs)) = Inl e"
  by (cases "snapshot w"; cases "remote w")
    (auto simp: asyncPipeExchangerate_def asyncGetOfflineRateData_def asyncGetRateData_def
      asyncGetSplit_def bind_eff_def log_call_def Let_def split: sum.splits prod.splits)

text \<open>
  When the rate data is fetched and parses, the blocking stage fails with NameError.
\<close>

lemma pipe_exchangerate_online_NameError:
  assumes "\<not> truthy (conf_offline_value conf)" and "get_rate_data w = Inr rdata"
    and "parse_request (Value rdata) = Inr rates"
  shows "pipe_exchangerate ft lg w dispatch item conf kwargs = ([], Inl NameError)"
  using assms
  by (simp add: pipe_exchangerate_def get_split_def bind_eff_def)

text \<open>
  With a truthy \<^verbatim>\<open>offline\<close> both stages read the snapshot and fail in the same way
  (on the snapshot, on its parse, or on the unbound split function), provided the module
  logger is in place for the blocking one; with the logger unset the blocking stage fails
  on its first log call.
\<close>

lemma offline_strategies_agree:
  assumes "truthy (conf_offline_value conf)"
  shows "snd (snd (asyncPipeExchangerate ft w sd item conf kwargs))
       = snd (pipe_exchangerate ft Logger w sd item conf kwargs)"
  using assms
  by (cases "snapshot w")
    (auto simp: asyncPipeExchangerate_def pipe_exchangerate_def asyncGetOfflineRateData_def
      get_offline_rate_data_def get_split_def asyncGetSplit_def bind_eff_def log_call_def
      Let_def split: sum.splits prod.splits)

lemma offline_blocking_logger_unset:
  assumes "truthy (conf_offline_value conf)"
  shows "pipe_exchangerate ft LoggerNone w sd item conf kwargs = ([], Inl AttributeError)"
  using assms
  by (simp add: pipe_exchangerate_def get_offline_rate_data_def bind_eff_def log_call_def)

section \<open>The claims\<close>

text \<open>
  C1. Blocking and suspendable stage produce the same output sequence for the same input
  and the same external data. The code produces no output sequence in either strategy.
  With \<^verbatim>\<open>offline\<close> unset and the rate service answering with the sample fields,
  \<open>pipe_exchangerate\<close> fetches and parses the data and then raises NameError on the
  unbound \<^verbatim>\<open>get_split\<close>; \<open>asyncPipeExchangerate\<close> fails earlier and differently: it
  hands the Deferred of \<open>asyncGetRateData\<close> to \<open>parse_request\<close> (the \<^verbatim>\<open>yield\<close> of the
  offline branch is missing in the online branch), which raises on the subscript.
\<close>

theorem exchangerate_strategies_fail:
  "pipe_exchangerate (\<lambda>s. None) LoggerNone
      \<lparr>remote = Inr (Inr (quote_payload FIELDS)), snapshot = Inr (quote_payload FIELDS)\<rparr>
      (\<lambda>split :: unit. Inr [(\<lparr>conf_quote = WStr ''USD'', conf_default = WStr ''USD'',
          conf_offline = None\<rparr>, WStr ''EUR'', False)])
      ''EUR''
      [''quote'' \<mapsto> [''value'' \<mapsto> WStr ''USD''], ''default'' \<mapsto> [''value'' \<mapsto> WStr ''USD'']]
      ()
     = ([], Inl NameError)
   \<and> snd (asyncPipeExchangerate (\<lambda>s. None)
      \<lparr>remote = Inr (Inr (quote_payload FIELDS)), snapshot = Inr (quote_payload FIELDS)\<rparr>
      (\<lambda>split :: unit. Inr [(\<lparr>conf_quote = WStr ''USD'', conf_default = WStr ''USD'',
          conf_offline = None\<rparr>, WStr ''EUR'', False)])
      ''EUR''
      [''quote'' \<mapsto> [''value'' \<mapsto> WStr ''USD''], ''default'' \<mapsto> [''value'' \<mapsto> WStr ''USD'']]
      ())
     = ([(DEBUG, ''asyncGetRateData'')], Inl TypeError)"
  by (simp add: pipe_exchangerate_def asyncPipeExchangerate_def asyncGetRateData_def
      get_rate_data_def get_split_def conf_offline_value_def quote_payload_def FIELDS_def
      record_entry_def bind_eff_def bind_err_def log_call_def)

text \<open>
  C2. The rate-data fetch never fails outright: when the remote fetch raises or its
  response does not parse, the bundled snapshot is returned, in both strategies. The code
  does not: \<open>get_rate_data\<close> has no fallback, so a failing GET fails the blocking
  fetch and the blocking stage, although the snapshot is readable; \<open>asyncGetRateData\<close>
  falls back when the GET fails, and not when the response does not parse.
\<close>

theorem rate_fetch_fails_outright:
  "get_rate_data \<lparr>remote = Inl ConnectionError, snapshot = Inr (quote_payload FIELDS)\<rparr>
     = Inl ConnectionError
   \<and> snd (pipe_exchangerate (\<lambda>s. None) Logger
        \<lparr>remote = Inl ConnectionError, snapshot = Inr (quote_payload FIELDS)\<rparr>
        (\<lambda>split :: unit. Inr []) () Map.empty ()) = Inl ConnectionError
   \<and> snd (asyncGetRateData Logger
        \<lparr>remote = Inl ConnectionError, snapshot = Inr (quote_payload FIELDS)\<rparr>)
       = Inr (Deferred (Inr (quote_payload FIELDS)))
   \<and> snd (asyncGetRateData Logger
        \<lparr>remote = Inr (Inl ValueError), snapshot = Inr (quote_payload FIELDS)\<rparr>)
       = Inr (Deferred (Inl ValueError))"
  by (simp add: pipe_exchangerate_def asyncGetRateData_def asyncGetOfflineRateData_def
      get_rate_data_def conf_offline_value_def bind_eff_def log_call_def)

text \<open>
  C3. For distinct currencies \<open>from_cur\<close> and \<open>to_cur\<close> with \<open>to_cur\<close> not USD, and a
  table that holds the prices \<open>g\<close> for \<^verbatim>\<open>USD/<from_cur>\<close> and \<open>d\<close> for
  \<^verbatim>\<open>USD/<to_cur>\<close>, \<open>calc_rate\<close> returns \<open>1 / (g * (1 / d))\<close>, logging nothing. Where
  that expression divides by zero (a zero price) the call raises ZeroDivisionError. At the
  table USD/USD 1, USD/EUR 0.8234, USD/GBP 0.6448 the rate from EUR to GBP is
  \<open>1 / (0.8234 * (1 / 0.6448))\<close>: the instance below.
\<close>

theorem calc_rate_cross_rate:
  assumes "from_cur \<noteq> to_cur" and "to_cur \<noteq> WStr ''USD''"
    and "rates (rate_key from_cur) = Some (JNum g)"
    and "rates (rate_key to_cur) = Some (JNum d)"
  shows "(g \<noteq> 0 \<and> d \<noteq> 0 \<longrightarrow>
            calc_rate ft lg from_cur to_cur rates = ([], Inr (1 / (g * (1 / d)))))
       \<and> (g = 0 \<or> d = 0 \<longrightarrow>
            calc_rate ft lg from_cur to_cur rates = ([], Inl ZeroDivisionError))"
  using assms
  by (simp add: calc_rate_def calc_rate_rate_def bind_eff_def bind_err_def pydiv_def)

theorem calc_rate_cross_rate_witness:
  "WStr ''EUR'' \<noteq> WStr ''GBP'' \<and> WStr ''GBP'' \<noteq> WStr ''USD''
   \<and> example_rates (rate_key (WStr ''EUR'')) = Some (JNum 0.8234)
   \<and> example_rates (rate_key (WStr ''GBP'')) = Some (JNum 0.6448)
   \<and> calc_rate (\<lambda>s. None) LoggerNone (WStr ''EUR'') (WStr ''GBP'') example_rates
       = ([], Inr (1 / (0.8234 * (1 / 0.6448))))
   \<and> \<bar>1 / (0.8234 * (1 / 0.6448)) - (0.7830945 :: real)\<bar> < 1 / 10 ^ 6"
  using calc_rate_cross_rate [of "WStr ''EUR''" "WStr ''GBP''" example_rates "0.8234" "0.6448"
      "\<lambda>s. None" LoggerNone]
  by (simp add: example_rates_def rate_key_def)

text \<open>
  C4, as amended. For a payload of the shape \<^verbatim>\<open>list.resources[]\<close>: if every record
  is well formed, with entries \<open>kvs\<close> in order, \<open>parse_request\<close> returns the table that
  maps each name to its price (a later record of the same name replaces an earlier one).
  A malformed record is not skipped: if any record is malformed the call raises, with the
  error of the first malformed record, and returns no table.
\<close>

theorem parse_request_flattens:
  assumes "getitem j ''list'' = Inr l" and "getitem l ''resources'' = Inr (JArr rs)"
  shows "(map record_entry rs = map Inr kvs \<longrightarrow>
            parse_request (Value j) = Inr (map_of (rev kvs)))
       \<and> (\<forall>r \<in> set rs. \<forall>e. record_entry r = Inl e \<longrightarrow>
            (\<exists>e'. parse_request (Value j) = Inl e'))
       \<and> (rs = pre @ r # post \<and> map record_entry pre = map Inr kvs' \<and> record_entry r = Inl e
            \<longrightarrow> parse_request (Value j) = Inl e)"
  using assms
  by (auto simp: bind_err_def build_rates_ok build_rates_fail build_rates_some_fail)

theorem parse_request_flattens_witness:
  "parse_request (Value (quote_payload FIELDS))
     = Inr (map_of (rev [(JStr ''USD/USD'', JNum 1), (JStr ''USD/EUR'', JNum 0.8234),
         (JStr ''USD/GBP'', JNum 0.6448), (JStr ''USD/INR'', JNum 63.6810),
         (JStr ''USD/PLN'', JNum 3.76), (JStr ''USD/SGD'', JNum 1.34)]))
   \<and> parse_request (Value (quote_payload
        [JObj [(''name'', JStr ''USD/EUR''), (''price'', JNum 0.8234)],
         JObj [(''name'', JStr ''USD/GBP'')],
         JObj [(''name'', JStr ''USD/SGD''), (''price'', JNum 1.34)]])) = Inl KeyError"
proof -
  let ?wrap = "\<lambda>f. JObj [(''resource'', JObj [(''fields'', f)])]"
  let ?bad = "[JObj [(''name'', JStr ''USD/EUR''), (''price'', JNum 0.8234)],
         JObj [(''name'', JStr ''USD/GBP'')],
         JObj [(''name'', JStr ''USD/SGD''), (''price'', JNum 1.34)]]"
  have res: "\<And>fs. getitem (JObj [(''resources'', JArr (map ?wrap fs))]) ''resources''
      = Inr (JArr (map ?wrap fs))"
    by simp
  have good: "map record_entry (map ?wrap FIELDS)
      = map Inr [(JStr ''USD/USD'', JNum 1), (JStr ''USD/EUR'', JNum 0.8234),
         (JStr ''USD/GBP'', JNum 0.6448), (JStr ''USD/INR'', JNum 63.6810),
         (JStr ''USD/PLN'', JNum 3.76), (JStr ''USD/SGD'', JNum 1.34)]"
    by (simp add: FIELDS_def record_entry_def bind_err_def)
  have bad: "map ?wrap ?bad
        = [?wrap (JObj [(''name'', JStr ''USD/EUR''), (''price'', JNum 0.8234)])]
          @ ?wrap (JObj [(''name'', JStr ''USD/GBP'')])
          # [?wrap (JObj [(''name'', JStr ''USD/SGD''), (''price'', JNum 1.34)])]
      \<and> map record_entry [?wrap (JObj [(''name'', JStr ''USD/EUR''), (''price'', JNum 0.8234)])]
          = map Inr [(JStr ''USD/EUR'', JNum 0.8234)]
      \<and> record_entry (?wrap (JObj [(''name'', JStr ''USD/GBP'')])) = Inl KeyError"
    by (simp add: record_entry_def bind_err_def)
  from parse_request_flattens [OF quote_payload_resources [of FIELDS] res,
      where kvs = "[(JStr ''USD/USD'', JNum 1), (JStr ''USD/EUR'', JNum 0.8234),
         (JStr ''USD/GBP'', JNum 0.6448), (JStr ''USD/INR'', JNum 63.6810),
         (JStr ''USD/PLN'', JNum 3.76), (JStr ''USD/SGD'', JNum 1.34)]"] good
  have 1: "parse_request (Value (quote_payload FIELDS))
     = Inr (map_of (rev [(JStr ''USD/USD'', JNum 1), (JStr ''USD/EUR'', JNum 0.8234),
         (JStr ''USD/GBP'', JNum 0.6448), (JStr ''USD/INR'', JNum 63.6810),
         (JStr ''USD/PLN'', JNum 3.76), (JStr ''USD/SGD'', JNum 1.34)]))"
    by blast
  from parse_request_flattens [OF quote_payload_resources [of ?bad] res,
      where pre = "[?wrap (JObj [(''name'', JStr ''USD/EUR''), (''price'', JNum 0.8234)])]"
        and r = "?wrap (JObj [(''name'', JStr ''USD/GBP'')])"
        and post = "[?wrap (JObj [(''name'', JStr ''USD/SGD''), (''price'', JNum 1.34)])]"
        and kvs' = "[(JStr ''USD/EUR'', JNum 0.8234)]" and e = KeyError] bad
  have 2: "parse_request (Value (quote_payload ?bad)) = Inl KeyError"
    by blast
  from 1 2 show ?thesis by blast
qed

theorem parse_request_malformed_counterexample:
  "parse_request (Value (quote_payload
      [JObj [(''name'', JStr ''USD/EUR''), (''price'', JNum 0.8234)],
       JObj [(''name'', JStr ''USD/GBP'')]])) = Inl KeyError
   \<and> parse_request (Value (quote_payload
      [JObj [(''name'', JStr ''USD/EUR''), (''price'', JNum 0.8234)],
       JObj [(''name'', JStr ''USD/GBP'')]]))
      \<noteq> Inr [JStr ''USD/EUR'' \<mapsto> JNum 0.8234]"
  by (simp add: quote_payload_def bind_err_def record_entry_def)

text \<open>
  C5. In the to-USD branch a missing \<^verbatim>\<open>USD/<from_cur>\<close> key does not raise: a warning
  is logged and the rate 1 is used. The code does so only once the module logger has been
  assigned: with \<^verbatim>\<open>logger\<close> still \<^verbatim>\<open>None\<close>, its initial value, which
  \<open>pipe_exchangerate\<close> never changes, \<^verbatim>\<open>logger.warning\<close> raises AttributeError
  inside the handler.
\<close>

theorem calc_rate_to_usd_logger_unset:
  "calc_rate (\<lambda>s. None) LoggerNone (WStr ''EUR'') (WStr ''USD'') Map.empty
     = ([], Inl AttributeError)
   \<and> calc_rate (\<lambda>s. None) Logger (WStr ''EUR'') (WStr ''USD'') Map.empty
     = ([(WARNING, ''rate USD/EUR not found in rates'')], Inr 1)"
  by (simp add: calc_defs)

text \<open>
  C6. A call of the cached fetch that finds no live entry and whose fetch succeeds at
  time \<open>t1\<close> opens a 12-hour window. Only that call invokes the underlying fetch; a
  call at \<open>t2\<close> inside the window returns the cached value without invoking the fetch,
  whatever the fetch would give, and leaves the cache as it is; a call at \<open>t3\<close>, when
  the window has expired, invokes the fetch again. This holds for every key and fetch
  function, so for both decorated rate-data fetches.
\<close>

theorem cache_window:
  assumes fresh: "\<forall>e. cache key = Some e \<longrightarrow> \<not> live t1 HALF_DAY e"
    and c1: "cache_get cache t1 key HALF_DAY (Inr v) = (cache1, n1, r1)"
    and in_window: "t2 - t1 < HALF_DAY"
    and c2: "cache_get cache1 t2 key HALF_DAY fetch2 = (cache2, n2, r2)"
    and expired: "HALF_DAY \<le> t3 - t1"
    and c3: "cache_get cache2 t3 key HALF_DAY fetch3 = (cache3, n3, r3)"
  shows "n1 = 1 \<and> r1 = Inr v \<and> n2 = 0 \<and> r2 = Inr v \<and> cache2 = cache1 \<and> n3 = 1"
proof -
  from fresh c1 have 1: "n1 = 1" "r1 = Inr v"
    "cache1 = cache(key \<mapsto> \<lparr>entry_value = v, fetchedAt = t1\<rparr>)"
    by (auto simp: cache_get_def split: option.splits if_splits)
  from 1 in_window c2 have 2: "n2 = 0" "r2 = Inr v" "cache2 = cache1"
    by (auto simp: cache_get_def live_def split: option.splits if_splits)
  from 1 2 expired c3 have 3: "n3 = 1"
    by (auto simp: cache_get_def live_def split: option.splits if_splits sum.splits)
  from 1 2 3 show ?thesis by simp
qed

theorem cache_window_witness:
  "memo_get_rate_data Map.empty 1000 \<lparr>remote = Inr (Inr JNull), snapshot = Inl IOError\<rparr>
     = ([''get_rate_data'' \<mapsto> \<lparr>entry_value = JNull, fetchedAt = 1000\<rparr>], 1, Inr JNull)
   \<and> memo_get_rate_data [''get_rate_data'' \<mapsto> \<lparr>entry_value = JNull, fetchedAt = 1000\<rparr>]
       44199 \<lparr>remote = Inl ConnectionError, snapshot = Inl IOError\<rparr>
     = ([''get_rate_data'' \<mapsto> \<lparr>entry_value = JNull, fetchedAt = 1000\<rparr>], 0, Inr JNull)
   \<and> fst (snd (memo_get_rate_data
       [''get_rate_data'' \<mapsto> \<lparr>entry_value = JNull, fetchedAt = 1000\<rparr>]
       44200 \<lparr>remote = Inr (Inr (JNum 2)), snapshot = Inl IOError\<rparr>)) = 1"
proof -
  let ?c1 = "[''get_rate_data'' \<mapsto> \<lparr>entry_value = JNull, fetchedAt = 1000\<rparr>]"
  have fresh: "\<forall>e. (Map.empty :: string \<rightharpoonup> json entry) ''get_rate_data'' = Some e
      \<longrightarrow> \<not> live 1000 HALF_DAY e"
    by simp
  have c1: "cache_get Map.empty 1000 ''get_rate_data'' HALF_DAY (Inr JNull) = (?c1, 1, Inr JNull)"
    by (simp add: cache_get_def)
  have w: "(44199::int) - 1000 < HALF_DAY" "HALF_DAY \<le> (44200::int) - 1000"
    by (simp_all add: HALF_DAY_def)
  have c2: "cache_get ?c1 44199 ''get_rate_data'' HALF_DAY (Inl ConnectionError)
      = (?c1, 0, Inr JNull)"
    by (simp add: cache_get_def live_def HALF_DAY_def)
  obtain c3 n3 r3 where c3: "cache_get ?c1 44200 ''get_rate_data'' HALF_DAY (Inr (JNum 2))
      = (c3, n3, r3)"
    by (cases "cache_get ?c1 44200 ''get_rate_data'' HALF_DAY (Inr (JNum 2))") auto
  from cache_window [OF fresh c1 w(1) c2 w(2) c3] have "n3 = 1" by simp
  with c1 c2 c3 show ?thesis
    by (simp add: memo_get_rate_data_def get_rate_data_def)
qed

text \<open>
  C7, as amended. In exact arithmetic: if both \<open>calc_rate f t\<close> and \<open>calc_rate t f\<close>
  return, and the table's USD/USD price is 1 whenever one of the two currencies is USD,
  then the first rate is the reciprocal of the second (which is not zero).
\<close>

theorem calc_rate_inverse:
  assumes usd: "f = WStr ''USD'' \<or> t = WStr ''USD'' \<Longrightarrow>
                  rates (JStr ''USD/USD'') = Some (JNum 1)"
    and x: "snd (calc_rate ft lg f t rates) = Inr x"
    and y: "snd (calc_rate ft lg t f rates) = Inr y"
  shows "y \<noteq> 0 \<and> x = 1 / y"
proof (cases "f = t")
  case True
  with x y show ?thesis by (simp add: calc_defs)
next
  case neq: False
  show ?thesis
  proof (cases "t = WStr ''USD''")
    case True
    with neq usd have u: "rates (rate_key t) = Some (JNum 1)"
      by (simp add: rate_key_def)
    from True neq y u obtain v d where
      v: "rates (rate_key f) = Some v" "as_num v = Inr d" "d \<noteq> 0" "y = d"
      by (auto simp: calc_defs split: option.splits sum.splits if_splits)
    from v True neq x show ?thesis
      by (auto simp: calc_defs as_num_pyfloat split: option.splits sum.splits if_splits)
  next
    case tn: False
    show ?thesis
    proof (cases "f = WStr ''USD''")
      case True
      with neq usd have u: "rates (rate_key f) = Some (JNum 1)"
        by (simp add: rate_key_def)
      from True neq x u tn obtain v d where
        v: "rates (rate_key t) = Some v" "as_num v = Inr d" "d \<noteq> 0" "x = d"
        by (auto simp: calc_defs split: option.splits sum.splits if_splits)
      from v True neq y show ?thesis
        by (auto simp: calc_defs as_num_pyfloat split: option.splits sum.splits if_splits)
    next
      case fn: False
      from x neq tn obtain vf vt a b where
        vs: "rates (rate_key f) = Some vf" "rates (rate_key t) = Some vt"
          "as_num vf = Inr a" "as_num vt = Inr b" "b \<noteq> 0" "a * (1 / b) \<noteq> 0"
          "x = 1 / (a * (1 / b))"
        by (auto simp: calc_defs split: option.splits sum.splits if_splits)
      with y neq fn show ?thesis
        by (auto simp: calc_defs split: option.splits sum.splits if_splits)
    qed
  qed
qed

theorem calc_rate_inverse_witness:
  "example_rates (JStr ''USD/USD'') = Some (JNum 1)
   \<and> snd (calc_rate (\<lambda>s. None) LoggerNone (WStr ''EUR'') (WStr ''USD'') example_rates)
       = Inr (1 / 0.8234)
   \<and> snd (calc_rate (\<lambda>s. None) LoggerNone (WStr ''USD'') (WStr ''EUR'') example_rates)
       = Inr 0.8234
   \<and> (0.8234 :: real) \<noteq> 0 \<and> (1 / 0.8234 :: real) = 1 / 0.8234"
proof -
  have u: "WStr ''EUR'' = WStr ''USD'' \<or> WStr ''USD'' = WStr ''USD'' \<Longrightarrow>
      example_rates (JStr ''USD/USD'') = Some (JNum 1)"
    by (simp add: example_rates_def)
  have x: "snd (calc_rate (\<lambda>s. None) LoggerNone (WStr ''EUR'') (WStr ''USD'') example_rates)
       = Inr (1 / 0.8234)"
    by (simp add: calc_defs example_rates_def rate_key_def)
  have y: "snd (calc_rate (\<lambda>s. None) LoggerNone (WStr ''USD'') (WStr ''EUR'') example_rates)
       = Inr 0.8234"
    by (simp add: calc_defs example_rates_def rate_key_def)
  from calc_rate_inverse [OF u x y] x y show ?thesis
    by (simp add: example_rates_def)
qed

theorem calc_rate_inverse_counterexample:
  "snd (calc_rate (\<lambda>s. None) LoggerNone (WStr ''EUR'') (WStr ''USD'')
          [JStr ''USD/USD'' \<mapsto> JNum 2, JStr ''USD/EUR'' \<mapsto> JNum 4]) = Inr (1 / 4)
   \<and> snd (calc_rate (\<lambda>s. None) LoggerNone (WStr ''USD'') (WStr ''EUR'')
          [JStr ''USD/USD'' \<mapsto> JNum 2, JStr ''USD/EUR'' \<mapsto> JNum 4]) = Inr 2
   \<and> (1 / 4 :: real) \<noteq> 1 / 2"
  by (simp add: calc_defs rate_key_def)

text \<open>
  C8. If the word of a split pair is falsy (\<^verbatim>\<open>None\<close>, the empty string or zero),
  \<open>parse_result\<close> works on \<^verbatim>\<open>conf.default\<close>: a pass-through pair yields the default
  itself, and any other pair yields what \<open>calc_rate\<close> gives for the default as the base
  currency; the word does not occur in either result. \<open>get_base\<close> makes the same
  substitution.
\<close>

theorem parse_result_falsy_word:
  assumes "word = WNone \<or> word = WStr [] \<or> word = WInt 0"
  shows "parse_result ft lg conf word True rates = ([], Inr (OWord (conf_default conf)))
       \<and> parse_result ft lg conf word False rates =
           bind_eff (calc_rate ft lg (conf_default conf) (conf_quote conf) rates)
             (\<lambda>r. ([], Inr (ORate r)))
       \<and> fst (get_base conf word) = conf_default conf"
  using assms by (auto simp: parse_result_def get_base_def py_or_def)

theorem parse_result_falsy_word_witness:
  "parse_result (\<lambda>s. None) LoggerNone
      \<lparr>conf_quote = WStr ''USD'', conf_default = WStr ''EUR'', conf_offline = None\<rparr>
      (WStr []) True example_rates = ([], Inr (OWord (WStr ''EUR'')))
   \<and> parse_result (\<lambda>s. None) LoggerNone
      \<lparr>conf_quote = WStr ''USD'', conf_default = WStr ''EUR'', conf_offline = None\<rparr>
      (WStr []) False example_rates = ([], Inr (ORate (1 / 0.8234)))
   \<and> fst (get_base \<lparr>conf_quote = WStr ''USD'', conf_default = WStr ''EUR'',
        conf_offline = None\<rparr> (WStr [])) = WStr ''EUR''"
  using parse_result_falsy_word [of "WStr []" "\<lambda>s. None" LoggerNone
      "\<lparr>conf_quote = WStr ''USD'', conf_default = WStr ''EUR'', conf_offline = None\<rparr>"
      example_rates]
  by (simp add: calc_defs example_rates_def rate_key_def)

text \<open>
  C9. In exact arithmetic: if every price of the table is a strictly positive number,
  the value of \<^verbatim>\<open>rate\<close> that reaches \<^verbatim>\<open>1 / float(rate)\<close> is a positive number in
  each branch, neither the inner division \<^verbatim>\<open>1 / usd_to_default\<close> nor the final
  division is by zero, and \<open>calc_rate\<close> never raises ZeroDivisionError.
\<close>

theorem calc_rate_no_zero_division:
  assumes pos: "\<forall>k v. rates k = Some v \<longrightarrow> (\<exists>p. v = JNum p \<and> 0 < p)"
  shows "(\<forall>out rate. calc_rate_rate lg f t rates = (out, Inr rate) \<longrightarrow>
            (\<exists>r. pyfloat ft rate = Inr r \<and> 0 < r))
       \<and> snd (calc_rate_rate lg f t rates) \<noteq> Inl ZeroDivisionError
       \<and> snd (calc_rate ft lg f t rates) \<noteq> Inl ZeroDivisionError"
proof -
  have P: "\<And>k v. rates k = Some v \<Longrightarrow> \<exists>p. v = JNum p \<and> 0 < p"
    using pos by blast
  have 1: "\<forall>out rate. calc_rate_rate lg f t rates = (out, Inr rate) \<longrightarrow>
            (\<exists>r. pyfloat ft rate = Inr r \<and> 0 < r)"
    by (cases lg) (auto simp: calc_rate_rate_def bind_eff_def bind_err_def pydiv_def
        log_call_def split: option.splits sum.splits if_splits dest!: P)
  have 2: "snd (calc_rate_rate lg f t rates) \<noteq> Inl ZeroDivisionError"
    by (cases lg) (auto simp: calc_rate_rate_def bind_eff_def bind_err_def pydiv_def
        log_call_def split: option.splits sum.splits if_splits dest!: P)
  have 3: "snd (calc_rate ft lg f t rates) \<noteq> Inl ZeroDivisionError"
  proof (cases "calc_rate_rate lg f t rates")
    case (Pair out r)
    show ?thesis
    proof (cases r)
      case (Inl e)
      with Pair 2 show ?thesis by (simp add: calc_rate_def bind_eff_def)
    next
      case (Inr rate)
      with Pair 1 obtain q where "pyfloat ft rate = Inr q" "0 < q" by blast
      with Pair Inr show ?thesis
        by (simp add: calc_rate_def bind_eff_def bind_err_def pydiv_def)
    qed
  qed
  from 1 2 3 show ?thesis by blast
qed

theorem calc_rate_no_zero_division_witness:
  "(\<exists>r. pyfloat (\<lambda>s. None) (JNum (0.8234 * (1 / 0.6448))) = Inr r \<and> 0 < r)
   \<and> snd (calc_rate_rate LoggerNone (WStr ''EUR'') (WStr ''GBP'') example_rates)
       \<noteq> Inl ZeroDivisionError
   \<and> snd (calc_rate (\<lambda>s. None) LoggerNone (WStr ''EUR'') (WStr ''GBP'') example_rates)
       \<noteq> Inl ZeroDivisionError"
proof -
  have vals: "\<And>k v. example_rates k = Some v \<Longrightarrow>
      v = JNum 1 \<or> v = JNum 0.8234 \<or> v = JNum 0.6448"
    by (auto simp: example_rates_def split: if_splits)
  have p: "(0::real) < 1" "(0::real) < 0.8234" "(0::real) < 0.6448"
    by simp_all
  have pos: "\<forall>k v. example_rates k = Some v \<longrightarrow> (\<exists>p. v = JNum p \<and> 0 < p)"
    using vals p by blast
  have r: "calc_rate_rate LoggerNone (WStr ''EUR'') (WStr ''GBP'') example_rates
      = ([], Inr (JNum (0.8234 * (1 / 0.6448))))"
    by (simp add: calc_defs example_rates_def rate_key_def)
  from calc_rate_no_zero_division [OF pos, of LoggerNone "WStr ''EUR''" "WStr ''GBP''"
      "\<lambda>s. None"] r
  show ?thesis by blast
qed

text \<open>
  C10. When the skip flag is true and the keyword arguments hold a \<^verbatim>\<open>stream\<close>, both
  \<open>parser\<close> and \<open>async_parser\<close> return that stream with the flag, and call no
  collaborator: no URL is resolved, no feed discovered, nothing fetched or parsed.
\<close>

theorem parser_skip:
  assumes "kwargs ''stream'' = Some s"
  shows "parser ext objconf True kwargs = ([], Inr (s, True))
       \<and> async_parser ext objconf True kwargs = ([], Inr (s, True))"
  using assms by (simp add: parser_def async_parser_def bind_eff_def)

theorem parser_skip_witness:
  "[''stream'' \<mapsto> (7::nat)] ''stream'' = Some 7
   \<and> parser
       \<lparr>get_abspath = \<lambda>u. Inl IOError, get_rss = \<lambda>u. Inl IOError,
        asyncGetRSS = \<lambda>u. Inl IOError, async_url_read = \<lambda>u. Inl IOError,
        parse_rss = \<lambda>c. (Inl IOError :: error + unit),
        gen_entries = \<lambda>p. (Inl IOError :: error + nat)\<rparr>
       \<lparr>url = ''http://example.com''\<rparr> True [''stream'' \<mapsto> 7] = ([], Inr (7, True))
   \<and> async_parser
       \<lparr>get_abspath = \<lambda>u. Inl IOError, get_rss = \<lambda>u. Inl IOError,
        asyncGetRSS = \<lambda>u. Inl IOError, async_url_read = \<lambda>u. Inl IOError,
        parse_rss = \<lambda>c. (Inl IOError :: error + unit),
        gen_entries = \<lambda>p. (Inl IOError :: error + nat)\<rparr>
       \<lparr>url = ''http://example.com''\<rparr> True [''stream'' \<mapsto> 7] = ([], Inr (7, True))"
proof -
  have k: "[''stream'' \<mapsto> (7::nat)] ''stream'' = Some 7" by simp
  from parser_skip [of "[''stream'' \<mapsto> 7]" 7, OF k] k show ?thesis by blast
qed

end
